theory Spec2Isabelle
  imports Main "HOL-Library.Word"
begin

unbundle bit_operations_syntax

section \<open>Types of the public header used by lib/zbc.h\<close>

text \<open>
  \<^verbatim>\<open>lib/zbc.h\<close> includes \<^verbatim>\<open>libzbc/zbc.h\<close>, which declares the device model, the zone
  descriptor, the zone operations and the device information. Their declarations are
  written here from the data model of the specification.
\<close>

text \<open>Modelled from the spec: \<^verbatim>\<open>enum zbc_dev_model\<close>; the zone model classification is
  not zoned / host-aware / host-managed.\<close>

datatype zbc_dev_model = ZBC_DM_NOT_ZONED | ZBC_DM_HOST_AWARE | ZBC_DM_HOST_MANAGED

text \<open>Modelled from the spec: \<^verbatim>\<open>enum zbc_zone_type\<close>; conventional,
  sequential-write-required, sequential-write-preferred.\<close>

datatype zbc_zone_type =
  ZBC_ZT_CONVENTIONAL | ZBC_ZT_SEQUENTIAL_REQ | ZBC_ZT_SEQUENTIAL_PREF

text \<open>Modelled from the spec: \<^verbatim>\<open>enum zbc_zone_condition\<close>; the constant
  not-write-pointer value of conventional zones, then empty, implicit-open, explicit-open,
  closed, full, read-only, offline, inactive.\<close>

datatype zbc_zone_condition =
  ZBC_ZC_NOT_WP | ZBC_ZC_EMPTY | ZBC_ZC_IMP_OPEN | ZBC_ZC_EXP_OPEN | ZBC_ZC_CLOSED
  | ZBC_ZC_FULL | ZBC_ZC_RDONLY | ZBC_ZC_OFFLINE | ZBC_ZC_INACTIVE

text \<open>Modelled from the spec: \<^verbatim>\<open>struct zbc_zone\<close>, the zone descriptor: start, length,
  write pointer, type, condition and the reset-recommended flag. The specification gives
  the three addresses no width; they are natural numbers here.\<close>

record zbc_zone =
  zbz_start :: nat
  zbz_length :: nat
  zbz_write_pointer :: nat
  zbz_type :: zbc_zone_type
  zbz_condition :: zbc_zone_condition
  zbz_need_reset :: bool

text \<open>Modelled from the spec: \<^verbatim>\<open>enum zbc_zone_op\<close>; open, close, finish, reset write
  pointer.\<close>

datatype zbc_zone_op = ZBC_OP_OPEN_ZONE | ZBC_OP_CLOSE_ZONE | ZBC_OP_FINISH_ZONE | ZBC_OP_RESET_ZONE

text \<open>Modelled from the spec: \<^verbatim>\<open>struct zbc_device_info\<close>, the device geometry. The macros of
  \<^verbatim>\<open>lib/zbc.h\<close> read \<^verbatim>\<open>zbd_model\<close>, \<^verbatim>\<open>zbd_lblock_size\<close> and \<^verbatim>\<open>zbd_pblock_size\<close>; the block
  sizes are 32-bit unsigned, the sector count is 64-bit as the sector arguments of
  \<^verbatim>\<open>struct zbc_ops\<close> are.\<close>

record zbc_device_info =
  zbd_model :: zbc_dev_model
  zbd_sectors :: "64 word"
  zbd_lblock_size :: "32 word"
  zbd_pblock_size :: "32 word"

text \<open>Modelled from the spec: the classes of the structured error.\<close>

datatype zbc_err =
  Invalid_Argument | Unsupported | Not_Zoned | Device_Error int | IO_Error int | Open_Failure

text \<open>Modelled from the spec: \<^verbatim>\<open>struct zbc_errno\<close>, the last command's outcome: a class
  (\<open>None\<close> is success), the backend's diagnostic code and its text.\<close>

record zbc_errno =
  zbe_class :: "zbc_err option"
  zbe_code :: int
  zbe_text :: string

section \<open>lib/zbc.h: backend operations and device descriptor\<close>

text \<open>
  \<^verbatim>\<open>struct zbc_ops\<close>. Each entry takes the device and returns its C result together with
  the device as the call left it; \<open>'d\<close> is the device. The last two entries are optional:
  a null function pointer is \<open>None\<close>.
\<close>

record 'd zbc_ops =
  zbd_open :: "string \<Rightarrow> int \<Rightarrow> int \<times> 'd option"
  zbd_close :: "'d \<Rightarrow> int"
  zbd_report_zones :: "'d \<Rightarrow> 64 word \<Rightarrow> 32 word \<Rightarrow> nat \<Rightarrow> int \<times> zbc_zone list \<times> 'd"
  zbd_zone_op :: "'d \<Rightarrow> 64 word \<Rightarrow> zbc_zone_op \<Rightarrow> 32 word \<Rightarrow> int \<times> 'd"
  zbd_pread :: "'d \<Rightarrow> nat \<Rightarrow> 64 word \<Rightarrow> int \<times> 8 word list \<times> 'd"
  zbd_pwrite :: "'d \<Rightarrow> 8 word list \<Rightarrow> 64 word \<Rightarrow> int \<times> 'd"
  zbd_flush :: "'d \<Rightarrow> int \<times> 'd"
  zbd_set_zones :: "('d \<Rightarrow> 64 word \<Rightarrow> 64 word \<Rightarrow> int \<times> 'd) option"
  zbd_set_wp :: "('d \<Rightarrow> 64 word \<Rightarrow> 64 word \<Rightarrow> int \<times> 'd) option"

text \<open>
  The four operation tables the header declares \<^verbatim>\<open>extern\<close>. \<^verbatim>\<open>zbd_ops\<close> of a device points
  to one of them; the pointer is this tag.
\<close>

datatype zbc_backend = ZBC_BLOCK | ZBC_ATA | ZBC_SCSI | ZBC_FAKE

text \<open>
  \<^verbatim>\<open>struct zbc_device\<close>, field by field. \<open>zbd_zones\<close> is not a field of the C structure:
  it is the zone table of the device behind the two file descriptors, which the backends
  report and change.
\<close>

record zbc_device =
  zbd_filename :: string
  zbd_fd :: int
  zbd_sg_fd :: int
  zbd_ops :: zbc_backend
  zbd_info :: zbc_device_info
  zbd_flags :: "32 word"
  zbd_errno :: zbc_errno
  zbd_zones :: "zbc_zone list"

section \<open>lib/zbc.h: the macros\<close>

definition zbc_dev_model :: "zbc_device \<Rightarrow> zbc_dev_model" where
  "zbc_dev_model dev = zbd_model (zbd_info dev)"

definition zbc_dev_is_zoned :: "zbc_device \<Rightarrow> bool" where
  "zbc_dev_is_zoned dev \<longleftrightarrow>
     zbc_dev_model dev = ZBC_DM_HOST_MANAGED \<or> zbc_dev_model dev = ZBC_DM_HOST_AWARE"

definition ZBC_DEVTEST :: "32 word" where
  "ZBC_DEVTEST = 0x80000000"

text \<open>
  \<^verbatim>\<open>zbc_test_mode\<close> has two definitions, chosen by the preprocessor. The first argument
  says whether \<^verbatim>\<open>HAVE_DEVTEST\<close> is defined in the build. A C value used as a condition is
  true when it is not zero.
\<close>

definition zbc_test_mode :: "bool \<Rightarrow> zbc_device \<Rightarrow> bool" where
  "zbc_test_mode have_devtest dev \<longleftrightarrow>
     (if have_devtest then zbd_flags dev AND ZBC_DEVTEST \<noteq> 0 else False)"

text \<open>\<^verbatim>\<open>enum zbc_reporting_options\<close> is a C enumeration: a 32-bit value.\<close>

definition zbc_ro_mask :: "32 word \<Rightarrow> 32 word" where
  "zbc_ro_mask ro = ro AND 0x3f"

text \<open>
  The alignment checks. The sector is 64-bit, as in \<^verbatim>\<open>struct zbc_ops\<close>; the shift is done
  in 64 bits and drops the bits it moves out. The block size is decremented in its own 32
  bits and then widened for the conjunction.
\<close>

definition zbc_dev_sect_laligned :: "zbc_device \<Rightarrow> 64 word \<Rightarrow> bool" where
  "zbc_dev_sect_laligned dev sect \<longleftrightarrow>
     push_bit 9 sect AND ucast (zbd_lblock_size (zbd_info dev) - 1) = 0"

definition zbc_dev_sect_paligned :: "zbc_device \<Rightarrow> 64 word \<Rightarrow> bool" where
  "zbc_dev_sect_paligned dev sect \<longleftrightarrow>
     push_bit 9 sect AND ucast (zbd_pblock_size (zbd_info dev) - 1) = 0"

subsection \<open>Log levels and messages\<close>

definition ZBC_LOG_NONE :: int where "ZBC_LOG_NONE = 0"
definition ZBC_LOG_WARNING :: int where "ZBC_LOG_WARNING = 1"
definition ZBC_LOG_ERROR :: int where "ZBC_LOG_ERROR = 2"
definition ZBC_LOG_INFO :: int where "ZBC_LOG_INFO = 3"
definition ZBC_LOG_DEBUG :: int where "ZBC_LOG_DEBUG = 4"
definition ZBC_LOG_MAX :: int where "ZBC_LOG_MAX = 5"

text \<open>
  The two streams the macros write to, and what has been written so far: the lines in
  the order of the \<^verbatim>\<open>fprintf\<close> calls. A message is the text after formatting. The global
  \<^verbatim>\<open>zbc_log_level\<close> is an argument.
\<close>

datatype zbc_stream = Stdout | Stderr

type_synonym zbc_output = "(zbc_stream \<times> string) list"

definition zbc_print :: "zbc_stream \<Rightarrow> string \<Rightarrow> zbc_output \<Rightarrow> zbc_output" where
  "zbc_print stream msg out = out @ [(stream, msg)]"

definition zbc_print_level ::
  "int \<Rightarrow> int \<Rightarrow> zbc_stream \<Rightarrow> string \<Rightarrow> zbc_output \<Rightarrow> zbc_output" where
  "zbc_print_level l zbc_log_level stream msg out =
     (if l \<le> zbc_log_level then zbc_print stream (''(libzbc) '' @ msg) out else out)"

definition zbc_warning :: "int \<Rightarrow> string \<Rightarrow> zbc_output \<Rightarrow> zbc_output" where
  "zbc_warning zbc_log_level msg out =
     zbc_print_level ZBC_LOG_WARNING zbc_log_level Stderr (''[WARNING] '' @ msg) out"

definition zbc_error :: "int \<Rightarrow> string \<Rightarrow> zbc_output \<Rightarrow> zbc_output" where
  "zbc_error zbc_log_level msg out =
     zbc_print_level ZBC_LOG_ERROR zbc_log_level Stderr (''[ERROR] '' @ msg) out"

definition zbc_info :: "int \<Rightarrow> string \<Rightarrow> zbc_output \<Rightarrow> zbc_output" where
  "zbc_info zbc_log_level msg out =
     zbc_print_level ZBC_LOG_INFO zbc_log_level Stdout msg out"

definition zbc_debug :: "int \<Rightarrow> string \<Rightarrow> zbc_output \<Rightarrow> zbc_output" where
  "zbc_debug zbc_log_level msg out =
     zbc_print_level ZBC_LOG_DEBUG zbc_log_level Stdout msg out"

section \<open>The operation tables of the four backends\<close>

text \<open>
  The tables \<^verbatim>\<open>zbc_block_ops\<close>, \<^verbatim>\<open>zbc_ata_ops\<close>, \<^verbatim>\<open>zbc_scsi_ops\<close> and \<^verbatim>\<open>zbc_fake_ops\<close> are
  declared in \<^verbatim>\<open>lib/zbc.h\<close> and defined in the backends' own files. The argument \<open>impl\<close> of
  each is the backend's implementation of the operations. The two optional entries are
  for emulated drives only.
\<close>

text \<open>Modelled from the spec (4.1): the table of the kernel zoned-block backend; the two
  optional entries are null.\<close>

definition zbc_block_ops :: "'d zbc_ops \<Rightarrow> 'd zbc_ops" where
  "zbc_block_ops impl = impl\<lparr>zbd_set_zones := None, zbd_set_wp := None\<rparr>"

text \<open>Modelled from the spec (4.1): the table of the ATA pass-through backend; the two
  optional entries are null.\<close>

definition zbc_ata_ops :: "'d zbc_ops \<Rightarrow> 'd zbc_ops" where
  "zbc_ata_ops impl = impl\<lparr>zbd_set_zones := None, zbd_set_wp := None\<rparr>"

text \<open>Modelled from the spec (4.1): the table of the SCSI pass-through backend; the two
  optional entries are null.\<close>

definition zbc_scsi_ops :: "'d zbc_ops \<Rightarrow> 'd zbc_ops" where
  "zbc_scsi_ops impl = impl\<lparr>zbd_set_zones := None, zbd_set_wp := None\<rparr>"

text \<open>Modelled from the spec (4.1): the table of the emulation backend, with its two
  optional operations.\<close>

definition zbc_fake_ops ::
  "'d zbc_ops \<Rightarrow> ('d \<Rightarrow> 64 word \<Rightarrow> 64 word \<Rightarrow> int \<times> 'd) \<Rightarrow>
   ('d \<Rightarrow> 64 word \<Rightarrow> 64 word \<Rightarrow> int \<times> 'd) \<Rightarrow> 'd zbc_ops" where
  "zbc_fake_ops impl set_zones set_wp =
     impl\<lparr>zbd_set_zones := Some set_zones, zbd_set_wp := Some set_wp\<rparr>"

text \<open>Modelled from the spec (4.1): the implementations of the four backends, as the
  dispatcher is given them.\<close>

record 'd zbc_backends =
  block_impl :: "'d zbc_ops"
  ata_impl :: "'d zbc_ops"
  scsi_impl :: "'d zbc_ops"
  fake_impl :: "'d zbc_ops"
  fake_set_zones :: "'d \<Rightarrow> 64 word \<Rightarrow> 64 word \<Rightarrow> int \<times> 'd"
  fake_set_wp :: "'d \<Rightarrow> 64 word \<Rightarrow> 64 word \<Rightarrow> int \<times> 'd"

text \<open>Modelled from the spec (4.1): the table that \<^verbatim>\<open>dev->zbd_ops\<close> points to.\<close>

fun zbc_ops_of :: "'d zbc_backends \<Rightarrow> zbc_backend \<Rightarrow> 'd zbc_ops" where
  "zbc_ops_of bk ZBC_BLOCK = zbc_block_ops (block_impl bk)"
| "zbc_ops_of bk ZBC_ATA = zbc_ata_ops (ata_impl bk)"
| "zbc_ops_of bk ZBC_SCSI = zbc_scsi_ops (scsi_impl bk)"
| "zbc_ops_of bk ZBC_FAKE = zbc_fake_ops (fake_impl bk) (fake_set_zones bk) (fake_set_wp bk)"

section \<open>Validation and dispatch\<close>

text \<open>
  The functions that validate a request and forward it to the bound backend are defined
  in \<^verbatim>\<open>lib/zbc.c\<close>, outside the header. They are written here from sections 4.1, 4.2,
  4.4, 4.5 and 7 of the specification. Validation comes first and does not touch the
  device; its verdict is a rejection, an answer given without the backend, or the request
  that goes to the backend. Following the design notes of the specification, the error
  class is returned as a value; \<^verbatim>\<open>zbd_errno\<close> is the backends' to set when a command runs.
\<close>

text \<open>Modelled from the spec (4.1): a call of one of the backend operations, with its
  arguments.\<close>

datatype zbc_request =
    Rq_report_zones "64 word" "32 word" nat
  | Rq_zone_op "64 word" zbc_zone_op "32 word"
  | Rq_pread nat "64 word"
  | Rq_pwrite "8 word list" "64 word"
  | Rq_flush
  | Rq_set_zones "64 word" "64 word"
  | Rq_set_wp "64 word" "64 word"

text \<open>Modelled from the spec (4.1): what a successful operation returns: nothing, a
  sequence of zone descriptors, the bytes read, or the number of bytes written.\<close>

datatype zbc_reply = Rp_ok | Rp_zones "zbc_zone list" | Rp_data "8 word list" | Rp_count int

text \<open>Modelled from the spec (7): the outcome of validation. A rejection and an answer
  are returned before any backend is invoked.\<close>

datatype zbc_verdict = Reject zbc_err | Answer zbc_reply | Forward zbc_request

text \<open>Modelled from the spec: the flag bit of a zone operation that selects all zones. Its
  value is declared in the public header; bit 0 is taken.\<close>

definition ZBC_OP_ALL_ZONES :: "32 word" where
  "ZBC_OP_ALL_ZONES = 0x1"

text \<open>Modelled from the spec (4.4, 4.5): the zone of the device that starts at an address,
  if the address is a zone boundary.\<close>

definition zbc_zone_at :: "zbc_device \<Rightarrow> 64 word \<Rightarrow> zbc_zone option" where
  "zbc_zone_at dev start = find (\<lambda>z. zbz_start z = unat start) (zbd_zones dev)"

text \<open>Modelled from the spec (4.4): a start beyond the capacity gives the empty sequence;
  a start that is not a zone boundary is an invalid argument; the filter is masked to six
  bits before forwarding.\<close>

definition zbc_report_zones_check ::
  "zbc_device \<Rightarrow> 64 word \<Rightarrow> 32 word \<Rightarrow> nat \<Rightarrow> zbc_verdict" where
  "zbc_report_zones_check dev start ro nr_zones =
     (if zbd_sectors (zbd_info dev) \<le> start then Answer (Rp_zones [])
      else if zbc_zone_at dev start = None then Reject Invalid_Argument
      else Forward (Rq_report_zones start (zbc_ro_mask ro) nr_zones))"

text \<open>Modelled from the spec (4.5, 4.2): (1) a device that is not zoned takes no zone
  operation; with the all-zones flag the start is ignored; otherwise the start is checked
  for alignment to the logical block (unless the device is in test mode) and (2) for
  being a zone boundary, and (3) the zone must not be conventional; (4) forward.\<close>

definition zbc_zone_op_check ::
  "bool \<Rightarrow> zbc_device \<Rightarrow> 64 word \<Rightarrow> zbc_zone_op \<Rightarrow> 32 word \<Rightarrow> zbc_verdict" where
  "zbc_zone_op_check have_devtest dev start op flags =
     (if \<not> zbc_dev_is_zoned dev then Reject Not_Zoned
      else if flags AND ZBC_OP_ALL_ZONES \<noteq> 0 then Forward (Rq_zone_op start op flags)
      else if \<not> zbc_test_mode have_devtest dev \<and> \<not> zbc_dev_sect_laligned dev start
        then Reject Invalid_Argument
      else (case zbc_zone_at dev start of
              None \<Rightarrow> Reject Invalid_Argument
            | Some z \<Rightarrow>
                if zbz_type z = ZBC_ZT_CONVENTIONAL then Reject Not_Zoned
                else Forward (Rq_zone_op start op flags)))"

text \<open>Modelled from the spec (4.2): a read whose offset is not aligned to the logical
  block is an invalid argument, unless the device is in test mode; then it is forwarded
  as it is.\<close>

definition zbc_pread_check :: "bool \<Rightarrow> zbc_device \<Rightarrow> nat \<Rightarrow> 64 word \<Rightarrow> zbc_verdict" where
  "zbc_pread_check have_devtest dev count offset =
     (if \<not> zbc_test_mode have_devtest dev \<and> \<not> zbc_dev_sect_laligned dev offset
        then Reject Invalid_Argument
      else Forward (Rq_pread count offset))"

text \<open>Modelled from the spec (4.2): a write is validated as a read is.\<close>

definition zbc_pwrite_check ::
  "bool \<Rightarrow> zbc_device \<Rightarrow> 8 word list \<Rightarrow> 64 word \<Rightarrow> zbc_verdict" where
  "zbc_pwrite_check have_devtest dev buf offset =
     (if \<not> zbc_test_mode have_devtest dev \<and> \<not> zbc_dev_sect_laligned dev offset
        then Reject Invalid_Argument
      else Forward (Rq_pwrite buf offset))"

text \<open>Modelled from the spec (4.1): reconfiguring the zones is unsupported where the bound
  backend has no entry for it.\<close>

definition zbc_set_zones_check ::
  "zbc_device zbc_backends \<Rightarrow> zbc_device \<Rightarrow> 64 word \<Rightarrow> 64 word \<Rightarrow> zbc_verdict" where
  "zbc_set_zones_check bk dev conv_sz zone_sz =
     (case zbd_set_zones (zbc_ops_of bk (zbd_ops dev)) of
        None \<Rightarrow> Reject Unsupported
      | Some f \<Rightarrow> Forward (Rq_set_zones conv_sz zone_sz))"

text \<open>Modelled from the spec (4.1): setting a write pointer is unsupported where the bound
  backend has no entry for it.\<close>

definition zbc_set_wp_check ::
  "zbc_device zbc_backends \<Rightarrow> zbc_device \<Rightarrow> 64 word \<Rightarrow> 64 word \<Rightarrow> zbc_verdict" where
  "zbc_set_wp_check bk dev start wp =
     (case zbd_set_wp (zbc_ops_of bk (zbd_ops dev)) of
        None \<Rightarrow> Reject Unsupported
      | Some f \<Rightarrow> Forward (Rq_set_wp start wp))"

text \<open>Modelled from the spec (7): a command the backend fails is a device error with the
  backend's code; C results below zero are failures.\<close>

definition zbc_cmd_result :: "int \<Rightarrow> zbc_reply \<Rightarrow> zbc_err + zbc_reply" where
  "zbc_cmd_result rc rp = (if rc < 0 then Inl (Device_Error rc) else Inr rp)"

text \<open>Modelled from the spec (7): a transfer the backend fails is an I/O error with the
  backend's code.\<close>

definition zbc_io_result :: "int \<Rightarrow> zbc_reply \<Rightarrow> zbc_err + zbc_reply" where
  "zbc_io_result rc rp = (if rc < 0 then Inl (IO_Error rc) else Inr rp)"

text \<open>Modelled from the spec (4.1): forwarding a request to the backend bound to the
  device.\<close>

fun zbc_forward ::
  "zbc_device zbc_backends \<Rightarrow> zbc_device \<Rightarrow> zbc_request \<Rightarrow> (zbc_err + zbc_reply) \<times> zbc_device"
where
  "zbc_forward bk dev (Rq_report_zones start ro n) =
     (case zbd_report_zones (zbc_ops_of bk (zbd_ops dev)) dev start ro n of
        (rc, zs, dev') \<Rightarrow> (zbc_cmd_result rc (Rp_zones zs), dev'))"
| "zbc_forward bk dev (Rq_zone_op start op flags) =
     (case zbd_zone_op (zbc_ops_of bk (zbd_ops dev)) dev start op flags of
        (rc, dev') \<Rightarrow> (zbc_cmd_result rc Rp_ok, dev'))"
| "zbc_forward bk dev (Rq_pread count offset) =
     (case zbd_pread (zbc_ops_of bk (zbd_ops dev)) dev count offset of
        (rc, buf, dev') \<Rightarrow> (zbc_io_result rc (Rp_data buf), dev'))"
| "zbc_forward bk dev (Rq_pwrite buf offset) =
     (case zbd_pwrite (zbc_ops_of bk (zbd_ops dev)) dev buf offset of
        (rc, dev') \<Rightarrow> (zbc_io_result rc (Rp_count rc), dev'))"
| "zbc_forward bk dev Rq_flush =
     (case zbd_flush (zbc_ops_of bk (zbd_ops dev)) dev of
        (rc, dev') \<Rightarrow> (zbc_cmd_result rc Rp_ok, dev'))"
| "zbc_forward bk dev (Rq_set_zones conv_sz zone_sz) =
     (case zbd_set_zones (zbc_ops_of bk (zbd_ops dev)) of
        None \<Rightarrow> (Inl Unsupported, dev)
      | Some f \<Rightarrow> (case f dev conv_sz zone_sz of (rc, dev') \<Rightarrow> (zbc_cmd_result rc Rp_ok, dev')))"
| "zbc_forward bk dev (Rq_set_wp start wp) =
     (case zbd_set_wp (zbc_ops_of bk (zbd_ops dev)) of
        None \<Rightarrow> (Inl Unsupported, dev)
      | Some f \<Rightarrow> (case f dev start wp of (rc, dev') \<Rightarrow> (zbc_cmd_result rc Rp_ok, dev')))"

text \<open>Modelled from the spec (7): a rejected request returns its error and leaves the
  device as it was; no backend is called.\<close>

fun zbc_dispatch ::
  "zbc_device zbc_backends \<Rightarrow> zbc_device \<Rightarrow> zbc_verdict \<Rightarrow> (zbc_err + zbc_reply) \<times> zbc_device"
where
  "zbc_dispatch bk dev (Reject e) = (Inl e, dev)"
| "zbc_dispatch bk dev (Answer rp) = (Inr rp, dev)"
| "zbc_dispatch bk dev (Forward rq) = zbc_forward bk dev rq"

text \<open>Modelled from the spec (4.1, 4.4): \<^verbatim>\<open>report_zones\<close>.\<close>

definition zbc_report_zones ::
  "zbc_device zbc_backends \<Rightarrow> zbc_device \<Rightarrow> 64 word \<Rightarrow> 32 word \<Rightarrow> nat \<Rightarrow>
   (zbc_err + zbc_reply) \<times> zbc_device" where
  "zbc_report_zones bk dev start ro nr_zones =
     zbc_dispatch bk dev (zbc_report_zones_check dev start ro nr_zones)"

text \<open>Modelled from the spec (4.1, 4.5): \<^verbatim>\<open>zone_op\<close>.\<close>

definition zbc_zone_operation ::
  "zbc_device zbc_backends \<Rightarrow> bool \<Rightarrow> zbc_device \<Rightarrow> 64 word \<Rightarrow> zbc_zone_op \<Rightarrow> 32 word \<Rightarrow>
   (zbc_err + zbc_reply) \<times> zbc_device" where
  "zbc_zone_operation bk have_devtest dev start op flags =
     zbc_dispatch bk dev (zbc_zone_op_check have_devtest dev start op flags)"

text \<open>Modelled from the spec (4.1, 4.2): \<^verbatim>\<open>read\<close>.\<close>

definition zbc_pread ::
  "zbc_device zbc_backends \<Rightarrow> bool \<Rightarrow> zbc_device \<Rightarrow> nat \<Rightarrow> 64 word \<Rightarrow>
   (zbc_err + zbc_reply) \<times> zbc_device" where
  "zbc_pread bk have_devtest dev count offset =
     zbc_dispatch bk dev (zbc_pread_check have_devtest dev count offset)"

text \<open>Modelled from the spec (4.1, 4.2): \<^verbatim>\<open>write\<close>.\<close>

definition zbc_pwrite ::
  "zbc_device zbc_backends \<Rightarrow> bool \<Rightarrow> zbc_device \<Rightarrow> 8 word list \<Rightarrow> 64 word \<Rightarrow>
   (zbc_err + zbc_reply) \<times> zbc_device" where
  "zbc_pwrite bk have_devtest dev buf offset =
     zbc_dispatch bk dev (zbc_pwrite_check have_devtest dev buf offset)"

text \<open>Modelled from the spec (4.1): \<^verbatim>\<open>flush\<close>; nothing to validate.\<close>

definition zbc_flush ::
  "zbc_device zbc_backends \<Rightarrow> zbc_device \<Rightarrow> (zbc_err + zbc_reply) \<times> zbc_device" where
  "zbc_flush bk dev = zbc_dispatch bk dev (Forward Rq_flush)"

text \<open>Modelled from the spec (4.1): \<^verbatim>\<open>reconfigure_zones\<close>.\<close>

definition zbc_set_zones ::
  "zbc_device zbc_backends \<Rightarrow> zbc_device \<Rightarrow> 64 word \<Rightarrow> 64 word \<Rightarrow>
   (zbc_err + zbc_reply) \<times> zbc_device" where
  "zbc_set_zones bk dev conv_sz zone_sz =
     zbc_dispatch bk dev (zbc_set_zones_check bk dev conv_sz zone_sz)"

text \<open>Modelled from the spec (4.1): \<^verbatim>\<open>set_write_pointer\<close>.\<close>

definition zbc_set_write_pointer ::
  "zbc_device zbc_backends \<Rightarrow> zbc_device \<Rightarrow> 64 word \<Rightarrow> 64 word \<Rightarrow>
   (zbc_err + zbc_reply) \<times> zbc_device" where
  "zbc_set_write_pointer bk dev start wp =
     zbc_dispatch bk dev (zbc_set_wp_check bk dev start wp)"

section \<open>Zone conditions and the write pointer\<close>

text \<open>
  The zone state machine lives in the devices and in the emulation backend, outside the
  header. It is written here from section 4.3 of the specification, for writes at the
  write pointer of a sequential zone.
\<close>
















section \<open>The example of the specification\<close>

text \<open>Modelled from the spec (8): zone \<open>i\<close> of the example scenario: 128 sectors,
  sequential-write-required, Empty.\<close>

definition example_zone :: "nat \<Rightarrow> zbc_zone" where
  "example_zone i = \<lparr>zbz_start = 128 * i, zbz_length = 128, zbz_write_pointer = 128 * i,
     zbz_type = ZBC_ZT_SEQUENTIAL_REQ, zbz_condition = ZBC_ZC_EMPTY, zbz_need_reset = False\<rparr>"

text \<open>Modelled from the spec (8): the geometry of the example scenario: logical block
  size 4096, four zones of 128 sectors; host-managed.\<close>

definition example_info :: zbc_device_info where
  "example_info = \<lparr>zbd_model = ZBC_DM_HOST_MANAGED, zbd_sectors = 512,
     zbd_lblock_size = 4096, zbd_pblock_size = 4096\<rparr>"

text \<open>Modelled from the spec (8): the device of the example scenario, bound to the
  emulation backend and not in test mode.\<close>

definition example_dev :: zbc_device where
  "example_dev = \<lparr>zbd_filename = ''/dev/zbc0'', zbd_fd = 3, zbd_sg_fd = 3, zbd_ops = ZBC_FAKE,
     zbd_info = example_info, zbd_flags = 0,
     zbd_errno = \<lparr>zbe_class = None, zbe_code = 0, zbe_text = []\<rparr>,
     zbd_zones = [example_zone 0, example_zone 1, example_zone 2, example_zone 3]\<rparr>"

text \<open>A backend implementation whose every operation succeeds and changes nothing:
  enough to run the dispatcher on the example.\<close>

definition idle_ops :: "zbc_device zbc_ops" where
  "idle_ops = \<lparr>zbd_open = (\<lambda>path flags. (0, None)), zbd_close = (\<lambda>dev. 0),
     zbd_report_zones = (\<lambda>dev start ro n. (0, [], dev)),
     zbd_zone_op = (\<lambda>dev start op flags. (0, dev)),
     zbd_pread = (\<lambda>dev count offset. (0, [], dev)),
     zbd_pwrite = (\<lambda>dev buf offset. (0, dev)),
     zbd_flush = (\<lambda>dev. (0, dev)),
     zbd_set_zones = None, zbd_set_wp = None\<rparr>"

text \<open>The four backends, each made of the idle implementation.\<close>

definition idle_backends :: "zbc_device zbc_backends" where
  "idle_backends = \<lparr>block_impl = idle_ops, ata_impl = idle_ops, scsi_impl = idle_ops,
     fake_impl = idle_ops,
     fake_set_zones = (\<lambda>dev conv_sz zone_sz. (0, dev)),
     fake_set_wp = (\<lambda>dev start wp. (0, dev))\<rparr>"


section \<open>The reporting filter\<close>

lemma ro_mask_take_bit: "zbc_ro_mask ro = take_bit 6 ro"
  by (simp add: zbc_ro_mask_def take_bit_eq_mask mask_eq_exp_minus_1)

lemma ro_mask_unat: "unat (zbc_ro_mask ro) = unat ro mod 64"
proof -
  have "unat (zbc_ro_mask ro) = take_bit 6 (unat ro)"
    by (simp only: ro_mask_take_bit unsigned_take_bit_eq)
  then show ?thesis by (simp add: take_bit_eq_mod)
qed

lemma ro_mask_le: "zbc_ro_mask ro \<le> 0x3f"
  unfolding zbc_ro_mask_def by (rule word_and_le1)

lemma ro_mask_idem: "zbc_ro_mask (zbc_ro_mask ro) = zbc_ro_mask ro"
  by (simp add: zbc_ro_mask_def)

lemma ro_mask_id:
  assumes "ro \<le> 0x3f"
  shows "zbc_ro_mask ro = ro"
proof -
  from assms have "ro < 2 ^ 6" by (simp add: word_le_nat_alt word_less_nat_alt)
  then have "ro AND mask 6 = ro" by (rule less_mask_eq)
  then show ?thesis by (simp add: zbc_ro_mask_def mask_eq_exp_minus_1)
qed

lemma ro_mask_changes:
  assumes "0x3f < ro"
  shows "zbc_ro_mask ro \<noteq> ro"
  using assms ro_mask_le [of ro] by auto

text \<open>
  Claim C10. The reporting-option mask is idempotent and bounded: masking twice is masking
  once, the result is at most 0x3F, and a value already in 0..0x3F is left as it is.
\<close>

theorem zbc_ro_mask_idempotent_bounded:
  "zbc_ro_mask (zbc_ro_mask ro) = zbc_ro_mask ro
   \<and> zbc_ro_mask ro \<le> 0x3f
   \<and> (ro \<le> 0x3f \<longrightarrow> zbc_ro_mask ro = ro)"
  by (simp add: ro_mask_idem ro_mask_le ro_mask_id)

theorem zbc_ro_mask_idempotent_bounded_witness:
  "zbc_ro_mask (zbc_ro_mask 0x2a) = zbc_ro_mask 0x2a
   \<and> zbc_ro_mask 0x2a \<le> 0x3f
   \<and> (0x2a::32 word) \<le> 0x3f \<and> zbc_ro_mask 0x2a = 0x2a"
  using zbc_ro_mask_idempotent_bounded [of "0x2a"] by simp

lemma report_check_forward:
  "zbc_report_zones_check dev start ro n = Forward rq
   \<Longrightarrow> rq = Rq_report_zones start (zbc_ro_mask ro) n"
  by (simp add: zbc_report_zones_check_def split: if_splits)

lemma report_check_mask:
  "zbc_report_zones_check dev start (zbc_ro_mask ro) n = zbc_report_zones_check dev start ro n"
  by (simp add: zbc_report_zones_check_def ro_mask_idem)

lemma ro_mask_7f: "zbc_ro_mask 0x7f = 0x3f"
  by (simp add: zbc_ro_mask_def)

text \<open>
  Claim C1. The report-zones path masks the reporting filter to its low six bits before
  forwarding it: the masked value is the filter modulo 64, 0x7F masks to 0x3F, whatever
  request is forwarded carries the masked filter, and an enumeration asked with 0x7F
  forwards the same request, with the same outcome, as one asked with 0x3F.
\<close>

theorem report_zones_filter_masked:
  "unat (zbc_ro_mask ro) = unat ro mod 2 ^ 6
   \<and> zbc_ro_mask 0x7f = 0x3f
   \<and> (zbc_report_zones_check dev start ro n = Forward rq
        \<longrightarrow> rq = Rq_report_zones start (zbc_ro_mask ro) n)
   \<and> zbc_report_zones_check dev start 0x7f n = zbc_report_zones_check dev start 0x3f n
   \<and> zbc_report_zones bk dev start 0x7f n = zbc_report_zones bk dev start 0x3f n"
proof -
  have "zbc_report_zones_check dev start 0x7f n = zbc_report_zones_check dev start 0x3f n"
    using report_check_mask [of dev start "0x7f" n] by (simp only: ro_mask_7f)
  then show ?thesis
    by (simp add: ro_mask_unat ro_mask_7f report_check_forward zbc_report_zones_def)
qed

theorem report_zones_filter_masked_witness:
  "zbc_report_zones_check example_dev 128 0x7f 4 = Forward (Rq_report_zones 128 0x3f 4)
   \<and> zbc_report_zones idle_backends example_dev 128 0x7f 4 = (Inr (Rp_zones []), example_dev)"
  using report_zones_filter_masked
    [where ro = "0x7f" and dev = example_dev and start = 128 and n = 4
       and rq = "Rq_report_zones 128 0x3f 4" and bk = idle_backends]
  by (simp add: zbc_report_zones_check_def zbc_report_zones_def zbc_zone_at_def example_dev_def
      example_info_def example_zone_def zbc_ro_mask_def idle_backends_def idle_ops_def
      zbc_fake_ops_def zbc_cmd_result_def)

text \<open>
  Claim C6 says that a reporting filter above 0x3F is rejected before dispatch. On the
  example device a request with filter 0x7F is not rejected: it is forwarded with filter
  0x3F and the operation succeeds.
\<close>

theorem wide_filter_counterexample:
  "(0x3f :: 32 word) < 0x7f
   \<and> zbc_report_zones_check example_dev 0 0x7f 4 = Forward (Rq_report_zones 0 0x3f 4)
   \<and> zbc_report_zones idle_backends example_dev 0 0x7f 4 = (Inr (Rp_zones []), example_dev)"
  by (simp add: zbc_report_zones_check_def zbc_report_zones_def zbc_zone_at_def example_dev_def
      example_info_def example_zone_def zbc_ro_mask_def idle_backends_def idle_ops_def
      zbc_fake_ops_def zbc_cmd_result_def)

text \<open>
  Claim C6, amended. A reporting filter above 0x3F is not rejected for its value: the
  request is validated as the one with the filter masked to six bits, which is at most
  0x3F and differs from the filter given; the only rejection is for a start that is not a
  zone boundary, and a start on a zone boundary within the capacity is forwarded with the
  masked filter.
\<close>

theorem wide_filter_masked_not_rejected:
  assumes "0x3f < ro"
  shows "zbc_report_zones_check dev start ro n
           = zbc_report_zones_check dev start (zbc_ro_mask ro) n
         \<and> zbc_ro_mask ro \<le> 0x3f \<and> zbc_ro_mask ro \<noteq> ro
         \<and> (zbc_report_zones_check dev start ro n = Reject e
              \<longrightarrow> e = Invalid_Argument \<and> zbc_zone_at dev start = None)
         \<and> (start < zbd_sectors (zbd_info dev) \<and> zbc_zone_at dev start \<noteq> None
              \<longrightarrow> zbc_report_zones_check dev start ro n
                    = Forward (Rq_report_zones start (zbc_ro_mask ro) n))"
proof -
  have "zbc_report_zones_check dev start ro n = Reject e
          \<longrightarrow> e = Invalid_Argument \<and> zbc_zone_at dev start = None"
    by (simp add: zbc_report_zones_check_def split: if_splits)
  moreover have "start < zbd_sectors (zbd_info dev) \<and> zbc_zone_at dev start \<noteq> None
      \<longrightarrow> zbc_report_zones_check dev start ro n
            = Forward (Rq_report_zones start (zbc_ro_mask ro) n)"
    by (auto simp add: zbc_report_zones_check_def)
  ultimately show ?thesis
    using ro_mask_changes [OF assms] by (simp add: report_check_mask ro_mask_le)
qed

theorem wide_filter_masked_not_rejected_witness:
  "(0x3f :: 32 word) < 0x47
   \<and> zbc_ro_mask 0x47 = 0x07
   \<and> zbc_report_zones_check example_dev 256 0x47 2 = Forward (Rq_report_zones 256 0x07 2)
   \<and> zbc_report_zones_check example_dev 5 0x47 2 = Reject Invalid_Argument
   \<and> zbc_zone_at example_dev 5 = None"
proof -
  have w: "(0x3f :: 32 word) < 0x47" by simp
  have m: "zbc_ro_mask 0x47 = 0x07" by (simp add: zbc_ro_mask_def)
  have z: "(256 :: 64 word) < zbd_sectors (zbd_info example_dev)
           \<and> zbc_zone_at example_dev 256 \<noteq> None"
    by (simp add: zbc_zone_at_def example_dev_def example_info_def example_zone_def)
  have r: "zbc_report_zones_check example_dev 5 0x47 2 = Reject Invalid_Argument"
    by (simp add: zbc_report_zones_check_def zbc_zone_at_def example_dev_def
        example_info_def example_zone_def)
  have "zbc_report_zones_check example_dev 256 0x47 2
          = Forward (Rq_report_zones 256 (zbc_ro_mask 0x47) 2)"
    using wide_filter_masked_not_rejected [OF w, of example_dev 256 2 Invalid_Argument] z
    by blast
  moreover have "zbc_zone_at example_dev 5 = None"
    using wide_filter_masked_not_rejected [OF w, of example_dev 5 2 Invalid_Argument] r
    by blast
  ultimately show ?thesis using w m r by (simp only: simp_thms)
qed

section \<open>Zoned devices and test mode\<close>

text \<open>
  Claim C3. A device is zoned exactly when its zone model is host-managed or host-aware;
  a device that is not zoned, in particular one of the not-zoned model, has every zone
  operation rejected as not zoned with the device untouched, whatever the backends are.
\<close>

theorem dev_is_zoned_iff_host_model:
  "(zbc_dev_is_zoned dev \<longleftrightarrow>
      zbd_model (zbd_info dev) = ZBC_DM_HOST_MANAGED \<or> zbd_model (zbd_info dev) = ZBC_DM_HOST_AWARE)
   \<and> (zbd_model (zbd_info dev) = ZBC_DM_NOT_ZONED \<longrightarrow> \<not> zbc_dev_is_zoned dev)
   \<and> (\<not> zbc_dev_is_zoned dev \<longrightarrow>
        zbc_zone_op_check have_devtest dev start op flags = Reject Not_Zoned
        \<and> zbc_zone_operation bk have_devtest dev start op flags = (Inl Not_Zoned, dev))"
  by (simp add: zbc_dev_is_zoned_def zbc_dev_model_def zbc_zone_op_check_def
      zbc_zone_operation_def)

theorem dev_is_zoned_iff_host_model_witness:
  "zbc_dev_is_zoned example_dev
   \<and> zbd_model (zbd_info (example_dev\<lparr>zbd_info := example_info\<lparr>zbd_model := ZBC_DM_NOT_ZONED\<rparr>\<rparr>))
       = ZBC_DM_NOT_ZONED
   \<and> \<not> zbc_dev_is_zoned (example_dev\<lparr>zbd_info := example_info\<lparr>zbd_model := ZBC_DM_NOT_ZONED\<rparr>\<rparr>)
   \<and> zbc_zone_operation idle_backends False
        (example_dev\<lparr>zbd_info := example_info\<lparr>zbd_model := ZBC_DM_NOT_ZONED\<rparr>\<rparr>)
        128 ZBC_OP_OPEN_ZONE 0
      = (Inl Not_Zoned, example_dev\<lparr>zbd_info := example_info\<lparr>zbd_model := ZBC_DM_NOT_ZONED\<rparr>\<rparr>)"
proof -
  let ?d = "example_dev\<lparr>zbd_info := example_info\<lparr>zbd_model := ZBC_DM_NOT_ZONED\<rparr>\<rparr>"
  have a: "zbd_model (zbd_info example_dev) = ZBC_DM_HOST_MANAGED"
    by (simp add: example_dev_def example_info_def)
  have b: "zbd_model (zbd_info ?d) = ZBC_DM_NOT_ZONED" by simp
  have "zbc_dev_is_zoned example_dev"
    using dev_is_zoned_iff_host_model [where dev = example_dev] a by blast
  moreover have "\<not> zbc_dev_is_zoned ?d
      \<and> zbc_zone_operation idle_backends False ?d 128 ZBC_OP_OPEN_ZONE 0 = (Inl Not_Zoned, ?d)"
    using dev_is_zoned_iff_host_model
      [where dev = ?d and bk = idle_backends and have_devtest = False and start = 128
         and op = ZBC_OP_OPEN_ZONE and flags = 0] b
    by blast
  ultimately show ?thesis using b by blast
qed

lemma devtest_bit: "(w AND ZBC_DEVTEST \<noteq> 0) = bit (w :: 32 word) 31"
proof -
  have "ZBC_DEVTEST = 2 ^ 31" by (simp add: ZBC_DEVTEST_def)
  moreover have "(w AND 2 ^ 31 = 0) = (\<not> bit w 31)" by (rule and_exp_eq_0_iff_not_bit)
  ultimately show ?thesis by (simp only: not_not)
qed

text \<open>
  Claim C4. Built without \<^verbatim>\<open>HAVE_DEVTEST\<close>, no device is in test mode, whatever its flags,
  so the validation of reads and writes does not depend on the flags and a misaligned
  offset is always rejected; built with it, a device is in test mode exactly when bit 31
  (\<^verbatim>\<open>ZBC_DEVTEST\<close>, 0x80000000) of its flags is set.
\<close>

theorem test_mode_only_with_devtest:
  "\<not> zbc_test_mode False dev
   \<and> (zbc_test_mode True dev \<longleftrightarrow> bit (zbd_flags dev) 31)
   \<and> ZBC_DEVTEST = 2 ^ 31
   \<and> zbc_pread_check False (dev\<lparr>zbd_flags := f\<rparr>) count offset
       = zbc_pread_check False dev count offset
   \<and> zbc_pwrite_check False (dev\<lparr>zbd_flags := f\<rparr>) buf offset
       = zbc_pwrite_check False dev buf offset
   \<and> (\<not> zbc_dev_sect_laligned dev offset \<longrightarrow>
        zbc_pread_check False dev count offset = Reject Invalid_Argument
        \<and> zbc_pwrite_check False dev buf offset = Reject Invalid_Argument)"
proof -
  have "ZBC_DEVTEST = 2 ^ 31" by (simp add: ZBC_DEVTEST_def)
  then show ?thesis
    by (simp add: zbc_test_mode_def devtest_bit zbc_pread_check_def zbc_pwrite_check_def
        zbc_dev_sect_laligned_def)
qed

theorem test_mode_only_with_devtest_witness:
  "\<not> zbc_test_mode False (example_dev\<lparr>zbd_flags := ZBC_DEVTEST\<rparr>)
   \<and> zbc_test_mode True (example_dev\<lparr>zbd_flags := ZBC_DEVTEST\<rparr>)
   \<and> \<not> zbc_dev_sect_laligned (example_dev\<lparr>zbd_flags := ZBC_DEVTEST\<rparr>) 3
   \<and> zbc_pread_check False (example_dev\<lparr>zbd_flags := ZBC_DEVTEST\<rparr>) 8 3
       = Reject Invalid_Argument
   \<and> zbc_pwrite_check False (example_dev\<lparr>zbd_flags := ZBC_DEVTEST\<rparr>) [] 3
       = Reject Invalid_Argument"
proof -
  have a: "\<not> zbc_dev_sect_laligned (example_dev\<lparr>zbd_flags := ZBC_DEVTEST\<rparr>) 3"
    by (simp add: zbc_dev_sect_laligned_def example_dev_def example_info_def)
  have b: "bit (zbd_flags (example_dev\<lparr>zbd_flags := ZBC_DEVTEST\<rparr>)) 31"
    by (simp add: ZBC_DEVTEST_def bit_numeral_word_iff)
  from a b test_mode_only_with_devtest
    [where dev = "example_dev\<lparr>zbd_flags := ZBC_DEVTEST\<rparr>" and offset = 3 and count = 8
       and buf = "[]" and f = 0]
  show ?thesis by blast
qed

section \<open>Alignment\<close>

lemma ucast_pow2_minus_1:
  assumes "k < 32"
  shows "(ucast (2 ^ k - 1 :: 32 word) :: 64 word) = mask k"
proof -
  have "(2 ^ k - 1 :: 32 word) = mask k" by (simp add: mask_eq_exp_minus_1)
  then have "(ucast (2 ^ k - 1 :: 32 word) :: 64 word) = ucast (mask k :: 32 word)" by simp
  also have "\<dots> = mask (min 32 k)" by (simp add: ucast_mask_eq)
  finally show ?thesis using assms by (simp add: min_def)
qed

lemma unat_push_bit_9: "unat (push_bit 9 (sect :: 64 word)) = (unat sect * 512) mod 2 ^ 64"
proof -
  have "unat (push_bit 9 sect) = take_bit 64 (push_bit 9 (unat sect))"
    by (simp only: unsigned_push_bit_eq len_bit0 len_num1) simp
  then show ?thesis by (simp add: take_bit_eq_mod push_bit_eq_mult)
qed

lemma mod_mod_pow2:
  assumes "k \<le> n"
  shows "((a :: nat) mod 2 ^ n) mod 2 ^ k = a mod 2 ^ k"
  using assms by (simp add: mod_mod_cancel le_imp_power_dvd)

lemma unat_pow2_32:
  assumes "k < 32"
  shows "unat (2 ^ k :: 32 word) = 2 ^ k"
proof -
  have "(2 ^ k :: 32 word) = of_nat (2 ^ k)" by simp
  then have "unat (2 ^ k :: 32 word) = 2 ^ k mod 2 ^ 32"
    by (simp only: unat_of_nat len_bit0 len_num1) simp
  moreover have "(2::nat) ^ k < 2 ^ 32" using assms by (rule power_strict_increasing) simp
  ultimately show ?thesis by (simp only: mod_less)
qed

lemma shifted_and_mask_iff:
  assumes "k < 32"
  shows "push_bit 9 (sect :: 64 word) AND ucast (2 ^ k - 1 :: 32 word) = 0
         \<longleftrightarrow> (unat sect * 512) mod 2 ^ k = 0"
proof -
  have "push_bit 9 sect AND ucast (2 ^ k - 1 :: 32 word) = 0
        \<longleftrightarrow> push_bit 9 sect AND mask k = 0"
    using assms by (simp only: ucast_pow2_minus_1)
  also have "\<dots> \<longleftrightarrow> 2 ^ k dvd unat (push_bit 9 sect)"
    by (simp add: and_mask_dvd_nat)
  also have "\<dots> \<longleftrightarrow> unat (push_bit 9 sect) mod 2 ^ k = 0"
    by (simp add: dvd_eq_mod_eq_0)
  also have "unat (push_bit 9 sect) mod 2 ^ k = ((unat sect * 512) mod 2 ^ 64) mod 2 ^ k"
    by (simp only: unat_push_bit_9)
  also have "\<dots> = (unat sect * 512) mod 2 ^ k"
    by (rule mod_mod_pow2) (use assms in simp)
  finally show ?thesis .
qed

lemma laligned_pow2:
  assumes "zbd_lblock_size (zbd_info dev) = 2 ^ k" and "k < 32"
  shows "zbc_dev_sect_laligned dev sect \<longleftrightarrow> (unat sect * 512) mod 2 ^ k = 0"
  using assms by (simp only: zbc_dev_sect_laligned_def shifted_and_mask_iff)

lemma paligned_pow2:
  assumes "zbd_pblock_size (zbd_info dev) = 2 ^ k" and "k < 32"
  shows "zbc_dev_sect_paligned dev sect \<longleftrightarrow> (unat sect * 512) mod 2 ^ k = 0"
  using assms by (simp only: zbc_dev_sect_paligned_def shifted_and_mask_iff)

text \<open>
  Claim C5. On a device whose logical block size is a power of two, the logical alignment
  check accepts a sector exactly when the byte offset, the sector times 512, is a
  multiple of the logical block size; a read or write at a sector that fails the check,
  on a device not in test mode, is rejected as an invalid argument and the device is
  returned untouched, whatever the backends are.
\<close>

theorem sect_laligned_iff_multiple:
  assumes "zbd_lblock_size (zbd_info dev) = 2 ^ k" and "k < 32"
  shows "(zbc_dev_sect_laligned dev sect
            \<longleftrightarrow> (unat sect * 512) mod unat (zbd_lblock_size (zbd_info dev)) = 0)
         \<and> (\<not> zbc_dev_sect_laligned dev sect \<and> \<not> zbc_test_mode have_devtest dev \<longrightarrow>
              zbc_pread_check have_devtest dev count sect = Reject Invalid_Argument
              \<and> zbc_pwrite_check have_devtest dev buf sect = Reject Invalid_Argument
              \<and> zbc_pread bk have_devtest dev count sect = (Inl Invalid_Argument, dev)
              \<and> zbc_pwrite bk have_devtest dev buf sect = (Inl Invalid_Argument, dev))"
proof -
  have "unat (zbd_lblock_size (zbd_info dev)) = 2 ^ k"
    using assms by (simp only: unat_pow2_32)
  then have "zbc_dev_sect_laligned dev sect
      \<longleftrightarrow> (unat sect * 512) mod unat (zbd_lblock_size (zbd_info dev)) = 0"
    using laligned_pow2 [OF assms] by simp
  then show ?thesis
    by (simp add: zbc_pread_check_def zbc_pwrite_check_def zbc_pread_def zbc_pwrite_def)
qed

theorem sect_laligned_iff_multiple_witness:
  "zbd_lblock_size (zbd_info example_dev) = 2 ^ 12 \<and> (12 :: nat) < 32
   \<and> zbc_dev_sect_laligned example_dev 8
   \<and> (unat (8 :: 64 word) * 512) mod unat (zbd_lblock_size (zbd_info example_dev)) = 0
   \<and> \<not> zbc_dev_sect_laligned example_dev 3
   \<and> (unat (3 :: 64 word) * 512) mod unat (zbd_lblock_size (zbd_info example_dev)) \<noteq> 0
   \<and> \<not> zbc_test_mode True example_dev
   \<and> zbc_pread idle_backends True example_dev 8 3 = (Inl Invalid_Argument, example_dev)
   \<and> zbc_pwrite idle_backends True example_dev [] 3 = (Inl Invalid_Argument, example_dev)"
proof -
  have a: "zbd_lblock_size (zbd_info example_dev) = 2 ^ 12"
    by (simp add: example_dev_def example_info_def)
  have b: "(12 :: nat) < 32" by simp
  have c: "(unat (3 :: 64 word) * 512) mod unat (zbd_lblock_size (zbd_info example_dev)) \<noteq> 0"
    "(unat (8 :: 64 word) * 512) mod unat (zbd_lblock_size (zbd_info example_dev)) = 0"
    by (simp_all add: example_dev_def example_info_def)
  have d: "\<not> zbc_test_mode True example_dev"
    by (simp add: zbc_test_mode_def example_dev_def)
  from sect_laligned_iff_multiple [OF a b, of 3 True 8 "[]" idle_backends]
    sect_laligned_iff_multiple [OF a b, of 8 True 8 "[]" idle_backends] a b c d
  show ?thesis by blast
qed

text \<open>
  Claim C9. When both block sizes are powers of two and the physical one is not below the
  logical one, a sector aligned to the physical block is aligned to the logical block.
\<close>

theorem paligned_implies_laligned:
  assumes "zbd_lblock_size (zbd_info dev) = 2 ^ j" and "j < 32"
    and "zbd_pblock_size (zbd_info dev) = 2 ^ k" and "k < 32"
    and "zbd_lblock_size (zbd_info dev) \<le> zbd_pblock_size (zbd_info dev)"
    and "zbc_dev_sect_paligned dev sect"
  shows "zbc_dev_sect_laligned dev sect"
proof -
  have "unat (2 ^ j :: 32 word) \<le> unat (2 ^ k :: 32 word)"
    using assms(1,3,5) by (simp add: word_le_nat_alt)
  then have "(2 :: nat) ^ j \<le> 2 ^ k"
    using assms(2,4) by (simp only: unat_pow2_32)
  then have "j \<le> k" by simp
  then have "(2 :: nat) ^ j dvd 2 ^ k" by (rule le_imp_power_dvd)
  moreover have "2 ^ k dvd unat sect * 512"
    using assms(6) paligned_pow2 [OF assms(3,4)] by (simp add: dvd_eq_mod_eq_0)
  ultimately have "2 ^ j dvd unat sect * 512" by (rule dvd_trans)
  then show ?thesis
    using laligned_pow2 [OF assms(1,2)] by (simp add: dvd_eq_mod_eq_0)
qed

theorem paligned_implies_laligned_witness:
  "zbd_lblock_size (zbd_info (example_dev\<lparr>zbd_info := example_info\<lparr>zbd_lblock_size := 512\<rparr>\<rparr>))
     = 2 ^ 9
   \<and> zbd_pblock_size (zbd_info (example_dev\<lparr>zbd_info := example_info\<lparr>zbd_lblock_size := 512\<rparr>\<rparr>))
     = 2 ^ 12
   \<and> zbc_dev_sect_paligned (example_dev\<lparr>zbd_info := example_info\<lparr>zbd_lblock_size := 512\<rparr>\<rparr>) 8
   \<and> zbc_dev_sect_laligned (example_dev\<lparr>zbd_info := example_info\<lparr>zbd_lblock_size := 512\<rparr>\<rparr>) 8"
proof -
  let ?d = "example_dev\<lparr>zbd_info := example_info\<lparr>zbd_lblock_size := 512\<rparr>\<rparr>"
  have a: "zbd_lblock_size (zbd_info ?d) = 2 ^ 9" by simp
  have b: "zbd_pblock_size (zbd_info ?d) = 2 ^ 12" by (simp add: example_info_def)
  have c: "zbd_lblock_size (zbd_info ?d) \<le> zbd_pblock_size (zbd_info ?d)"
    by (simp add: example_info_def)
  have d: "zbc_dev_sect_paligned ?d 8"
    by (simp add: zbc_dev_sect_paligned_def example_info_def)
  have "zbc_dev_sect_laligned ?d 8"
    by (rule paligned_implies_laligned [OF a _ b _ c d]) simp_all
  with a b d show ?thesis by blast
qed

section \<open>Log levels\<close>

lemma print_level_emits:
  "zbc_print_level l L stream msg out = out @ [(stream, ''(libzbc) '' @ msg)] \<longleftrightarrow> l \<le> L"
  by (simp add: zbc_print_level_def zbc_print_def)

lemma print_level_silent:
  "zbc_print_level l L stream msg out = out \<longleftrightarrow> \<not> l \<le> L"
  by (simp add: zbc_print_level_def zbc_print_def)

text \<open>
  Claim C7. A message of level Warning, Error, Info or Debug is written exactly when its
  level is at most the log level in force, and is otherwise dropped; with the log level
  None nothing of these four levels is written. The same holds of the four macros.
\<close>

theorem print_level_gate:
  assumes "l \<in> {ZBC_LOG_WARNING, ZBC_LOG_ERROR, ZBC_LOG_INFO, ZBC_LOG_DEBUG}"
  shows "(zbc_print_level l L stream msg out = out @ [(stream, ''(libzbc) '' @ msg)]
            \<longleftrightarrow> l \<le> L)
         \<and> (zbc_print_level l L stream msg out = out \<longleftrightarrow> \<not> l \<le> L)
         \<and> zbc_print_level l ZBC_LOG_NONE stream msg out = out
         \<and> (zbc_warning L msg out \<noteq> out \<longleftrightarrow> ZBC_LOG_WARNING \<le> L)
         \<and> (zbc_error L msg out \<noteq> out \<longleftrightarrow> ZBC_LOG_ERROR \<le> L)
         \<and> (zbc_info L msg out \<noteq> out \<longleftrightarrow> ZBC_LOG_INFO \<le> L)
         \<and> (zbc_debug L msg out \<noteq> out \<longleftrightarrow> ZBC_LOG_DEBUG \<le> L)
         \<and> zbc_warning ZBC_LOG_NONE msg out = out
         \<and> zbc_error ZBC_LOG_NONE msg out = out
         \<and> zbc_info ZBC_LOG_NONE msg out = out
         \<and> zbc_debug ZBC_LOG_NONE msg out = out"
proof -
  from assms have "\<not> l \<le> ZBC_LOG_NONE"
    by (auto simp: ZBC_LOG_NONE_def ZBC_LOG_WARNING_def ZBC_LOG_ERROR_def ZBC_LOG_INFO_def
        ZBC_LOG_DEBUG_def)
  then have none: "zbc_print_level l ZBC_LOG_NONE stream msg out = out"
    by (simp add: print_level_silent)
  have macros: "zbc_warning L msg out \<noteq> out \<longleftrightarrow> ZBC_LOG_WARNING \<le> L"
    "zbc_error L msg out \<noteq> out \<longleftrightarrow> ZBC_LOG_ERROR \<le> L"
    "zbc_info L msg out \<noteq> out \<longleftrightarrow> ZBC_LOG_INFO \<le> L"
    "zbc_debug L msg out \<noteq> out \<longleftrightarrow> ZBC_LOG_DEBUG \<le> L"
    by (simp_all add: zbc_warning_def zbc_error_def zbc_info_def zbc_debug_def
        print_level_silent)
  have off: "zbc_warning ZBC_LOG_NONE msg out = out" "zbc_error ZBC_LOG_NONE msg out = out"
    "zbc_info ZBC_LOG_NONE msg out = out" "zbc_debug ZBC_LOG_NONE msg out = out"
    by (simp_all add: zbc_warning_def zbc_error_def zbc_info_def zbc_debug_def
        print_level_silent ZBC_LOG_NONE_def ZBC_LOG_WARNING_def ZBC_LOG_ERROR_def
        ZBC_LOG_INFO_def ZBC_LOG_DEBUG_def)
  show ?thesis
    by (intro conjI) (rule print_level_emits print_level_silent none macros off)+
qed

theorem print_level_gate_witness:
  "ZBC_LOG_ERROR \<in> {ZBC_LOG_WARNING, ZBC_LOG_ERROR, ZBC_LOG_INFO, ZBC_LOG_DEBUG}
   \<and> zbc_print_level ZBC_LOG_ERROR ZBC_LOG_INFO Stderr ''[ERROR] open failed'' []
       = [(Stderr, ''(libzbc) [ERROR] open failed'')]
   \<and> zbc_print_level ZBC_LOG_ERROR ZBC_LOG_WARNING Stderr ''[ERROR] open failed'' [] = []
   \<and> zbc_print_level ZBC_LOG_ERROR ZBC_LOG_NONE Stderr ''[ERROR] open failed'' [] = []"
proof -
  have a: "ZBC_LOG_ERROR \<in> {ZBC_LOG_WARNING, ZBC_LOG_ERROR, ZBC_LOG_INFO, ZBC_LOG_DEBUG}"
    by simp
  have b: "ZBC_LOG_ERROR \<le> ZBC_LOG_INFO" "\<not> ZBC_LOG_ERROR \<le> ZBC_LOG_WARNING"
    by (simp_all add: ZBC_LOG_ERROR_def ZBC_LOG_INFO_def ZBC_LOG_WARNING_def)
  from print_level_gate [OF a, of ZBC_LOG_INFO Stderr "''[ERROR] open failed''" "[]"]
    print_level_gate [OF a, of ZBC_LOG_WARNING Stderr "''[ERROR] open failed''" "[]"] a b
  show ?thesis by (simp del: insert_iff)
qed

section \<open>Optional operations\<close>

lemma real_backend_no_optional_ops:
  assumes "b \<noteq> ZBC_FAKE"
  shows "zbd_set_zones (zbc_ops_of bk b) = None \<and> zbd_set_wp (zbc_ops_of bk b) = None"
  using assms
  by (cases b) (simp_all add: zbc_block_ops_def zbc_ata_ops_def zbc_scsi_ops_def)

text \<open>
  Claim C8. On a device bound to the kernel, ATA or SCSI backend, reconfiguring the zones
  and setting a write pointer fail as unsupported and return the device untouched; either
  call succeeds only on a device bound to the emulation backend.
\<close>

theorem optional_ops_unsupported_on_real_backends:
  "(zbd_ops dev \<in> {ZBC_BLOCK, ZBC_ATA, ZBC_SCSI} \<longrightarrow>
      zbc_set_zones bk dev conv_sz zone_sz = (Inl Unsupported, dev)
      \<and> zbc_set_write_pointer bk dev start wp = (Inl Unsupported, dev)
      \<and> zbc_set_zones_check bk dev conv_sz zone_sz = Reject Unsupported
      \<and> zbc_set_wp_check bk dev start wp = Reject Unsupported)
   \<and> (zbc_set_zones bk dev conv_sz zone_sz = (Inr r, dev') \<longrightarrow> zbd_ops dev = ZBC_FAKE)
   \<and> (zbc_set_write_pointer bk dev start wp = (Inr r, dev') \<longrightarrow> zbd_ops dev = ZBC_FAKE)"
proof -
  have real: "zbc_set_zones bk dev conv_sz zone_sz = (Inl Unsupported, dev)
      \<and> zbc_set_write_pointer bk dev start wp = (Inl Unsupported, dev)
      \<and> zbc_set_zones_check bk dev conv_sz zone_sz = Reject Unsupported
      \<and> zbc_set_wp_check bk dev start wp = Reject Unsupported"
    if "zbd_ops dev \<noteq> ZBC_FAKE"
    using real_backend_no_optional_ops [OF that, of bk]
    by (simp add: zbc_set_zones_def zbc_set_write_pointer_def zbc_set_zones_check_def
        zbc_set_wp_check_def)
  have "zbd_ops dev \<in> {ZBC_BLOCK, ZBC_ATA, ZBC_SCSI} \<longleftrightarrow> zbd_ops dev \<noteq> ZBC_FAKE"
    by (cases "zbd_ops dev") simp_all
  with real show ?thesis by auto
qed

theorem optional_ops_unsupported_on_real_backends_witness:
  "zbd_ops (example_dev\<lparr>zbd_ops := ZBC_SCSI\<rparr>) \<in> {ZBC_BLOCK, ZBC_ATA, ZBC_SCSI}
   \<and> zbc_set_zones idle_backends (example_dev\<lparr>zbd_ops := ZBC_SCSI\<rparr>) 0 128
       = (Inl Unsupported, example_dev\<lparr>zbd_ops := ZBC_SCSI\<rparr>)
   \<and> zbc_set_write_pointer idle_backends (example_dev\<lparr>zbd_ops := ZBC_SCSI\<rparr>) 128 136
       = (Inl Unsupported, example_dev\<lparr>zbd_ops := ZBC_SCSI\<rparr>)
   \<and> zbc_set_zones idle_backends example_dev 0 128 = (Inr Rp_ok, example_dev)
   \<and> zbc_set_write_pointer idle_backends example_dev 128 136 = (Inr Rp_ok, example_dev)
   \<and> zbd_ops example_dev = ZBC_FAKE"
proof -
  have a: "zbd_ops (example_dev\<lparr>zbd_ops := ZBC_SCSI\<rparr>) \<in> {ZBC_BLOCK, ZBC_ATA, ZBC_SCSI}"
    by simp
  have b: "zbc_set_zones idle_backends example_dev 0 128 = (Inr Rp_ok, example_dev)"
    "zbc_set_write_pointer idle_backends example_dev 128 136 = (Inr Rp_ok, example_dev)"
    by (simp_all add: zbc_set_zones_def zbc_set_write_pointer_def zbc_set_zones_check_def
        zbc_set_wp_check_def example_dev_def idle_backends_def zbc_fake_ops_def
        zbc_cmd_result_def)
  from optional_ops_unsupported_on_real_backends
      [where dev = "example_dev\<lparr>zbd_ops := ZBC_SCSI\<rparr>" and bk = idle_backends
         and conv_sz = 0 and zone_sz = 128 and start = 128 and wp = 136]
    optional_ops_unsupported_on_real_backends
      [where dev = example_dev and bk = idle_backends and conv_sz = 0 and zone_sz = 128
         and start = 128 and wp = 136 and r = Rp_ok and dev' = example_dev]
    a b
  show ?thesis by blast
qed

section \<open>The write pointer under the state machine\<close>













end
